theory Spec2Isabelle
  imports Main
begin

section \<open>Python strings and values\<close>

text \<open>
  A Python \<^verbatim>\<open>str\<close> is modelled as a \<^typ>\<open>string\<close>; one \<^typ>\<open>char\<close> stands for one
  character, the one with that code point (0x00 to 0xFF), so \<^const>\<open>length\<close> is Python's
  \<^verbatim>\<open>len\<close>.

  \<^verbatim>\<open>str.strip\<close> removes from both ends the characters that are whitespace for Python.
  Among the characters of the type these are the tab, line feed, vertical tab, form feed
  and carriage return, the four separators 0x1C to 0x1F, the space, the next-line
  character 0x85 and the no-break space 0xA0.

  \<^verbatim>\<open>str.upper\<close> maps the letters a to z to A to Z, and the model's \<open>upper\<close> does this and
  nothing else. Python also capitalises some characters above 0x7F (0xB5, 0xDF to 0xF6
  and 0xF8 to 0xFF). The program uses \<^verbatim>\<open>upper\<close> only to test whether the result starts
  with one of the ASCII words SELECT, INSERT, UPDATE and DELETE, and the answer to that
  test does not depend on those characters: none of their capitals is an ASCII letter,
  except that the capital of 0xDF is SS, and none of the four words has two S in a row.

  The calls of \<^verbatim>\<open>print\<close> in the program write to the console and decide nothing; the
  model leaves them out.
\<close>

definition isspace :: "char \<Rightarrow> bool" where
  "isspace c \<longleftrightarrow>
     c \<in> set [CHR 0x09, CHR 0x0A, CHR 0x0B, CHR 0x0C, CHR 0x0D,
              CHR 0x1C, CHR 0x1D, CHR 0x1E, CHR 0x1F, CHR 0x20, CHR 0x85, CHR 0xA0]"

definition strip :: "string \<Rightarrow> string" where
  "strip s = rev (dropWhile isspace (rev (dropWhile isspace s)))"

definition upper_char :: "char \<Rightarrow> char" where
  "upper_char c =
     (case map_of (zip ''abcdefghijklmnopqrstuvwxyz'' ''ABCDEFGHIJKLMNOPQRSTUVWXYZ'') c of
        Some u \<Rightarrow> u
      | None \<Rightarrow> c)"

definition upper :: "string \<Rightarrow> string" where
  "upper s = map upper_char s"

text \<open>\<^verbatim>\<open>s.startswith(p)\<close>, and \<^verbatim>\<open>s.startswith((p1, ..., pn))\<close> with a tuple of prefixes.\<close>

definition startswith :: "string \<Rightarrow> string \<Rightarrow> bool" where
  "startswith s p \<longleftrightarrow> take (length p) s = p"

definition startswith_any :: "string \<Rightarrow> string list \<Rightarrow> bool" where
  "startswith_any s ps \<longleftrightarrow> list_ex (startswith s) ps"

text \<open>\<^verbatim>\<open>sep.join(parts)\<close>.\<close>

fun join :: "string \<Rightarrow> string list \<Rightarrow> string" where
  "join sep [] = []"
| "join sep [x] = x"
| "join sep (x # y # ys) = x @ sep @ join sep (y # ys)"

text \<open>\<^verbatim>\<open>str(i)\<close> of an integer: its decimal digits, with a minus sign when negative.\<close>

fun str_nat :: "nat \<Rightarrow> string" where
  "str_nat n =
     (if n < 10 then [''0123456789'' ! n]
      else str_nat (n div 10) @ [''0123456789'' ! (n mod 10)])"

declare str_nat.simps [simp del]

definition str_int :: "int \<Rightarrow> string" where
  "str_int i = (if i < 0 then CHR ''-'' # str_nat (nat (- i)) else str_nat (nat i))"

text \<open>
  The values a result row holds (\<^verbatim>\<open>Dict[str, Any]\<close>): \<^verbatim>\<open>None\<close> for SQL NULL, an \<^verbatim>\<open>int\<close>, a
  \<^verbatim>\<open>str\<close>, or another object (a \<^verbatim>\<open>float\<close> for a REAL column, \<^verbatim>\<open>bytes\<close> for a BLOB). How the
  interpreter prints a float or a bytes object is not part of the program: it is the
  parameter \<open>str_other\<close> of \<open>py_str\<close>, which is \<^verbatim>\<open>str(v)\<close>.
\<close>

datatype 'o py_value = PyNone | PyInt int | PyStr string | PyOther 'o

fun py_str :: "('o \<Rightarrow> string) \<Rightarrow> 'o py_value \<Rightarrow> string" where
  "py_str str_other PyNone = ''None''"
| "py_str str_other (PyInt i) = str_int i"
| "py_str str_other (PyStr s) = s"
| "py_str str_other (PyOther x) = str_other x"

text \<open>
  An exception is an instance of \<^verbatim>\<open>sqlite3.Error\<close> (or of a subclass of it) or of another
  class; both carry the text \<^verbatim>\<open>str(e)\<close>. The handlers of the program tell exactly these
  two apart: \<^verbatim>\<open>except sqlite3.Error\<close> in sql.py, \<^verbatim>\<open>except Exception\<close> in llm.py and agent.py.
\<close>

datatype py_exn = Sqlite3Error string | OtherException string

fun exn_str :: "py_exn \<Rightarrow> string" where
  "exn_str (Sqlite3Error m) = m"
| "exn_str (OtherException m) = m"

section \<open>The query result\<close>

text \<open>
  \<^verbatim>\<open>execute_query\<close> returns one of three dictionaries:
  \<^verbatim>\<open>{"columns": ..., "rows": ...}\<close>, \<^verbatim>\<open>{"message": ...}\<close> and \<^verbatim>\<open>{"error": ...}\<close>. A row is a
  dictionary from column names to values.
\<close>

type_synonym 'o row = "string \<rightharpoonup> 'o py_value"

datatype 'o query_result =
    Rows "string list" "'o row list"
  | StatusMessage string
  | Failure string

section \<open>llm.py: the gateway\<close>

text \<open>
  \<^verbatim>\<open>get_llm_response\<close> builds the list of turns (role and text), sends it to the remote
  model and returns the stripped text of the response; any exception of the call becomes
  an error text. The remote call \<^verbatim>\<open>model.generate_content(...).text\<close> is the parameter
  \<open>generate_content\<close>; its decoding temperature plays no part in what the program does with
  the answer.
\<close>

type_synonym turn = "string \<times> string"

definition build_contents :: "string \<Rightarrow> string \<Rightarrow> turn list" where
  "build_contents prompt system_prompt =
     (if system_prompt \<noteq> []
      then [(''user'', system_prompt),
            (''model'', ''Okay, I understand. I will follow your instructions.'')]
      else [])
     @ [(''user'', prompt)]"

definition get_llm_response ::
  "(turn list \<Rightarrow> py_exn + string) \<Rightarrow> string \<Rightarrow> string \<Rightarrow> string" where
  "get_llm_response generate_content prompt system_prompt =
     (case generate_content (build_contents prompt system_prompt) of
        Inr response_text \<Rightarrow> strip response_text
      | Inl e \<Rightarrow> ''Error: Failed to get response from Gemini API: '' @ exn_str e)"

section \<open>agent.py: the synthesizer\<close>

definition db_schema :: string where
  "db_schema =
     ''\<newline>        Available tables and their columns:\<newline>''
   @ ''        - product_eligibility: eligibility_datetime_utc (TEXT), item_id (INTEGER), eligibility (BOOLEAN), message (TEXT)\<newline>''
   @ ''        - product_total_sales: date (TEXT), item_id (INTEGER), total_sales (REAL), total_units_ordered (INTEGER)\<newline>''
   @ ''        - product_ad_sales: date (TEXT), item_id (INTEGER), ad_sales (REAL), impressions (INTEGER), ad_spend (REAL), clicks (INTEGER), units_sold (INTEGER)\<newline>''
   @ ''        ''"

definition system_prompt :: string where
  "system_prompt =
     ''\<newline>        You are an expert in SQLite SQL. Your task is to convert natural language questions into\<newline>''
   @ ''        accurate and executable SQLite SQL queries.\<newline>''
   @ ''        \<newline>''
   @ ''        '' @ db_schema @ ''\<newline>''
   @ ''\<newline>''
   @ ''        Only return the SQL query. Do NOT include any explanations, comments, or additional text.\<newline>''
   @ ''        Make sure the query is syntactically correct and uses the correct table and column names.\<newline>''
   @ ''        If the question cannot be answered with the available tables, return '' @ [CHR 0x22] @ ''N/A'' @ [CHR 0x22] @ ''.\<newline>''
   @ ''        ''"

definition sql_prompt :: "string \<Rightarrow> string" where
  "sql_prompt natural_language_question =
     ''Convert the following question into an SQL query: '' @ [CHR 0x27]
     @ natural_language_question @ [CHR 0x27]"

definition sql_verbs :: "string list" where
  "sql_verbs = [''SELECT'', ''INSERT'', ''UPDATE'', ''DELETE'']"

text \<open>
  \<^verbatim>\<open>_generate_sql_query\<close>. The gateway \<open>llm\<close> is called once, inside
  \<^verbatim>\<open>try ... except Exception\<close>: whatever it raises becomes the sentinel. A response that
  does not look like SQL becomes the sentinel too; one that does is returned stripped.
\<close>

definition generate_sql_query ::
  "(string \<Rightarrow> string \<Rightarrow> py_exn + string) \<Rightarrow> string \<Rightarrow> string" where
  "generate_sql_query llm natural_language_question =
     (case llm (sql_prompt natural_language_question) system_prompt of
        Inl e \<Rightarrow> ''N/A''
      | Inr sql_query \<Rightarrow>
          if \<not> startswith_any (upper (strip sql_query)) sql_verbs then ''N/A''
          else strip sql_query)"

text \<open>The gateway of the repository: \<^verbatim>\<open>get_llm_response\<close>, which returns and never raises.\<close>

definition gateway ::
  "(turn list \<Rightarrow> py_exn + string) \<Rightarrow> string \<Rightarrow> string \<Rightarrow> py_exn + string" where
  "gateway generate_content prompt sys_prompt =
     Inr (get_llm_response generate_content prompt sys_prompt)"

section \<open>agent.py: the formatter\<close>

text \<open>\<^verbatim>\<open>str(row.get(col, 'N/A'))\<close>.\<close>

definition cell :: "('o \<Rightarrow> string) \<Rightarrow> 'o row \<Rightarrow> string \<Rightarrow> string" where
  "cell str_other row col = (case row col of None \<Rightarrow> ''N/A'' | Some v \<Rightarrow> py_str str_other v)"

definition format_response ::
  "('o \<Rightarrow> string) \<Rightarrow> 'o query_result \<Rightarrow> string \<Rightarrow> string" where
  "format_response str_other query_result original_question =
     (case query_result of
        Failure err \<Rightarrow> ''I encountered an error while fetching data: '' @ err
      | StatusMessage msg \<Rightarrow> msg
      | Rows columns rows \<Rightarrow>
          if rows = [] then
            ''I couldn't find any results for your question: '' @ [CHR 0x27]
            @ original_question @ [CHR 0x27] @ ''.''
          else
            (let header_row = join '' | '' columns;
                 response_parts =
                   [''Here are the results for '' @ [CHR 0x27] @ original_question
                      @ [CHR 0x27] @ '':\<newline>'']
                   @ [header_row]
                   @ [replicate (length header_row) (CHR ''-'')]
                   @ map (\<lambda>row. join '' | '' (map (cell str_other row) columns)) rows
             in join ''\<newline>'' response_parts))"

section \<open>sql.py: the store\<close>

text \<open>
  The \<^verbatim>\<open>sqlite3\<close> driver is outside the program: it is a parameter, a record of the calls
  \<^verbatim>\<open>execute_query\<close> makes, each a function of the state \<open>'s\<close> of the world (the
  database file and the open connection). A call returns normally (\<open>Inr\<close>) or raises
  (\<open>Inl\<close>), and leaves a new state.
  \<^item> \<open>connect\<close>: \<^verbatim>\<open>sqlite3.connect(DATABASE_FILE)\<close>;
  \<^item> \<open>cursor_execute\<close>: \<^verbatim>\<open>cursor.execute(sql_query)\<close>;
  \<^item> \<open>cursor_description\<close>: the column names \<^verbatim>\<open>description[0]\<close> of \<^verbatim>\<open>cursor.description\<close>,
    which is \<^verbatim>\<open>None\<close> when the statement has no result columns;
  \<^item> \<open>cursor_fetchall\<close>: \<^verbatim>\<open>cursor.fetchall()\<close>, a list of \<^verbatim>\<open>sqlite3.Row\<close>;
  \<^item> \<open>conn_commit\<close>: \<^verbatim>\<open>conn.commit()\<close>;
  \<^item> \<open>conn_close\<close>: \<^verbatim>\<open>conn.close()\<close>.
\<close>

text \<open>
  A \<^verbatim>\<open>sqlite3.Row\<close> is the list of its columns, each a name and a value. \<^verbatim>\<open>row[key]\<close> is the
  value of the first column whose name the driver takes for \<^verbatim>\<open>key\<close>: the same string, or,
  when both strings are ASCII, the same string up to the case of the letters A to Z.
  \<^verbatim>\<open>dict(row)\<close> maps every key of \<^verbatim>\<open>row.keys()\<close>, the names of the columns, to \<^verbatim>\<open>row[key]\<close>.
\<close>

type_synonym 'o sqlite_row = "(string \<times> 'o py_value) list"

definition is_ascii :: "string \<Rightarrow> bool" where
  "is_ascii s \<longleftrightarrow> list_all (\<lambda>c. (of_char c :: nat) < 128) s"

definition lower_char :: "char \<Rightarrow> char" where
  "lower_char c =
     (case map_of (zip ''ABCDEFGHIJKLMNOPQRSTUVWXYZ'' ''abcdefghijklmnopqrstuvwxyz'') c of
        Some l \<Rightarrow> l
      | None \<Rightarrow> c)"

definition equal_ignore_case :: "string \<Rightarrow> string \<Rightarrow> bool" where
  "equal_ignore_case left right \<longleftrightarrow>
     left = right
     \<or> (is_ascii left \<and> is_ascii right \<and> length left = length right
        \<and> map lower_char left = map lower_char right)"

definition row_getitem :: "'o sqlite_row \<Rightarrow> string \<Rightarrow> 'o py_value option" where
  "row_getitem r key = map_option snd (find (\<lambda>(name, v). equal_ignore_case key name) r)"

definition dict :: "'o sqlite_row \<Rightarrow> 'o row" where
  "dict r = (\<lambda>key. if key \<in> set (map fst r) then row_getitem r key else None)"

record ('s, 'o) sqlite3 =
  connect :: "'s \<Rightarrow> (py_exn + unit) \<times> 's"
  cursor_execute :: "string \<Rightarrow> 's \<Rightarrow> (py_exn + unit) \<times> 's"
  cursor_description :: "'s \<Rightarrow> string list option"
  cursor_fetchall :: "'s \<Rightarrow> (py_exn + 'o sqlite_row list) \<times> 's"
  conn_commit :: "'s \<Rightarrow> (py_exn + unit) \<times> 's"
  conn_close :: "'s \<Rightarrow> 's"

text \<open>
  \<^verbatim>\<open>get_db_connection\<close>: the connection (\<open>True\<close>), or \<^verbatim>\<open>None\<close> (\<open>False\<close>) when connecting
  raised an \<^verbatim>\<open>sqlite3.Error\<close>.
\<close>

definition get_db_connection :: "('s, 'o) sqlite3 \<Rightarrow> 's \<Rightarrow> (py_exn + bool) \<times> 's" where
  "get_db_connection drv s =
     (case connect drv s of
        (Inr _, s') \<Rightarrow> (Inr True, s')
      | (Inl (Sqlite3Error m), s') \<Rightarrow> (Inr False, s')
      | (Inl (OtherException m), s') \<Rightarrow> (Inl (OtherException m), s'))"

text \<open>
  The body of the \<^verbatim>\<open>try\<close> block of \<^verbatim>\<open>execute_query\<close>. The statement is executed first,
  whatever it is; its prefix decides what happens next. Iterating over a description that
  is \<^verbatim>\<open>None\<close> raises a \<^verbatim>\<open>TypeError\<close>.
\<close>

definition run_query ::
  "('s, 'o) sqlite3 \<Rightarrow> string \<Rightarrow> 's \<Rightarrow> (py_exn + 'o query_result) \<times> 's" where
  "run_query drv sql_query s =
     (case cursor_execute drv sql_query s of
        (Inl e, s1) \<Rightarrow> (Inl e, s1)
      | (Inr _, s1) \<Rightarrow>
          if startswith (upper (strip sql_query)) ''SELECT'' then
            (case cursor_description drv s1 of
               None \<Rightarrow>
                 (Inl (OtherException
                    ([CHR 0x27] @ ''NoneType'' @ [CHR 0x27] @ '' object is not iterable'')), s1)
             | Some columns \<Rightarrow>
                 (case cursor_fetchall drv s1 of
                    (Inl e, s2) \<Rightarrow> (Inl e, s2)
                  | (Inr rows, s2) \<Rightarrow> (Inr (Rows columns (map dict rows)), s2)))
          else
            (case conn_commit drv s1 of
               (Inl e, s2) \<Rightarrow> (Inl e, s2)
             | (Inr _, s2) \<Rightarrow> (Inr (StatusMessage ''Query executed successfully.''), s2)))"

text \<open>
  \<^verbatim>\<open>execute_query\<close>: the handler \<^verbatim>\<open>except sqlite3.Error\<close> turns an error of the driver into
  a \<open>Failure\<close> with its text, an exception of another class passes through it, and the
  \<^verbatim>\<open>finally\<close> clause closes the connection on every path of the \<^verbatim>\<open>try\<close> block.
\<close>

definition execute_query ::
  "('s, 'o) sqlite3 \<Rightarrow> string \<Rightarrow> 's \<Rightarrow> (py_exn + 'o query_result) \<times> 's" where
  "execute_query drv sql_query s =
     (case get_db_connection drv s of
        (Inl e, s0) \<Rightarrow> (Inl e, s0)
      | (Inr False, s0) \<Rightarrow> (Inr (Failure ''Database connection failed.''), s0)
      | (Inr True, s0) \<Rightarrow>
          (case run_query drv sql_query s0 of
             (Inl (Sqlite3Error m), s1) \<Rightarrow> (Inr (Failure m), conn_close drv s1)
           | (Inl (OtherException m), s1) \<Rightarrow> (Inl (OtherException m), conn_close drv s1)
           | (Inr r, s1) \<Rightarrow> (Inr r, conn_close drv s1)))"

section \<open>agent.py: the orchestrator\<close>

definition apology :: string where
  "apology = ''I'm sorry, I couldn't generate a valid SQL query for that question based on the available data.''"

text \<open>\<^verbatim>\<open>process_question\<close>: an exception that leaves \<^verbatim>\<open>execute_query\<close> leaves it too.\<close>

definition process_question ::
  "('s, 'o) sqlite3 \<Rightarrow> (string \<Rightarrow> string \<Rightarrow> py_exn + string) \<Rightarrow> ('o \<Rightarrow> string)
     \<Rightarrow> string \<Rightarrow> 's \<Rightarrow> (py_exn + string) \<times> 's" where
  "process_question drv llm str_other question s =
     (let sql_query = generate_sql_query llm question in
      if sql_query = ''N/A'' then (Inr apology, s)
      else
        (case execute_query drv sql_query s of
           (Inl e, s') \<Rightarrow> (Inl e, s')
         | (Inr query_result, s') \<Rightarrow>
             (Inr (format_response str_other query_result question), s')))"

text \<open>
  \<^verbatim>\<open>stream_process_question\<close> is a generator. Its model is what a caller that consumes it
  to the end has seen: the chunks yielded, in order, and the exception that ended it, if
  one did.
\<close>

definition stream_process_question ::
  "('s, 'o) sqlite3 \<Rightarrow> (string \<Rightarrow> string \<Rightarrow> py_exn + string) \<Rightarrow> ('o \<Rightarrow> string)
     \<Rightarrow> string \<Rightarrow> 's \<Rightarrow> (string list \<times> py_exn option) \<times> 's" where
  "stream_process_question drv llm str_other question s =
     (let sql_query = generate_sql_query llm question in
      if sql_query = ''N/A'' then
        (([''Thinking...\<newline>'', apology @ ''\<newline>''], None), s)
      else
        (let progress =
               [''Thinking...\<newline>'',
                ''Generated SQL query: '' @ [CHR 0x60] @ sql_query @ [CHR 0x60] @ ''\<newline>'',
                ''Fetching data...\<newline>'']
         in case execute_query drv sql_query s of
              (Inl e, s') \<Rightarrow> ((progress, Some e), s')
            | (Inr query_result, s') \<Rightarrow>
                ((progress
                  @ [format_response str_other query_result question @ ''\<newline>'',
                     ''Process complete.''],
                  None), s')))"

section \<open>A driver for concrete runs\<close>

text \<open>
  A small driver on which the functions above can be run: its state is the list of the
  calls made so far, \<open>conn\<close> is what connecting does, and \<open>db\<close> tells what the database
  does with a statement: it raises, or it runs it and has a result set (column names and
  rows of values) or none.
\<close>

datatype driver_call = Connect | Execute string | Fetchall | Commit | Close

type_synonym 'o answer = "py_exn + (string list \<times> 'o py_value list list) option"

definition result_set :: "(string \<Rightarrow> 'o answer) \<Rightarrow> driver_call list
    \<Rightarrow> (string list \<times> 'o py_value list list) option" where
  "result_set db s =
     (case rev s of
        Execute q # _ \<Rightarrow> (case db q of Inr res \<Rightarrow> res | Inl e \<Rightarrow> None)
      | _ \<Rightarrow> None)"

definition recording_driver ::
  "py_exn + unit \<Rightarrow> (string \<Rightarrow> 'o answer) \<Rightarrow> (driver_call list, 'o) sqlite3" where
  "recording_driver conn db =
     \<lparr> connect = (\<lambda>s. (conn, s @ [Connect])),
       cursor_execute =
         (\<lambda>q s. (case db q of Inl e \<Rightarrow> Inl e | Inr res \<Rightarrow> Inr (), s @ [Execute q])),
       cursor_description = (\<lambda>s. map_option fst (result_set db s)),
       cursor_fetchall =
         (\<lambda>s. (case result_set db s of
                  Some (cols, rows) \<Rightarrow> Inr (map (zip cols) rows)
                | None \<Rightarrow> Inr [],
                s @ [Fetchall])),
       conn_commit = (\<lambda>s. (Inr (), s @ [Commit])),
       conn_close = (\<lambda>s. s @ [Close]) \<rparr>"

text \<open>
  A database with one table \<open>t\<close> of columns \<open>a\<close> and \<open>b\<close> and one row, and no table
  \<open>sales\<close>: what the driver does on it with the statements of the runs below. Every
  other statement gets an \<^verbatim>\<open>sqlite3.Error\<close> too, so that the function is total; no run
  uses one.
\<close>

definition demo_db :: "string \<Rightarrow> unit answer" where
  "demo_db q =
     (if q = ''select a, b from t'' \<or> q = ''  select a, b from t''
        then Inr (Some ([''a'', ''b''], [[PyInt 1, PyInt 2]]))
      else if q = ''select 1 as a, 2 as a''
        then Inr (Some ([''a'', ''a''], [[PyInt 1, PyInt 2]]))
      else if q = ''DELETE FROM t'' then Inr None
      else if q = ''SELECT * FROM sales'' then Inl (Sqlite3Error ''no such table: sales'')
      else Inl (Sqlite3Error ''not a statement of this example''))"

section \<open>Facts about strings\<close>

lemma dropWhile_snoc_keep: "\<not> P x \<Longrightarrow> dropWhile P (xs @ [x]) = dropWhile P xs @ [x]"
  by (induction xs) auto

lemma strip_Cons_nonspace:
  "\<not> isspace c \<Longrightarrow> strip (c # s) = c # rev (dropWhile isspace (rev s))"
  by (simp add: strip_def dropWhile_snoc_keep)

lemma lstrip_strip: "dropWhile isspace (strip s) = strip s"
proof (cases "dropWhile isspace s")
  case Nil
  have "strip s = []" unfolding strip_def Nil by simp
  then show ?thesis by simp
next
  case (Cons c t)
  then have c: "\<not> isspace c" using hd_dropWhile [of isspace s] by force
  have "strip s = rev (dropWhile isspace (rev (c # t)))" by (simp add: strip_def Cons)
  also have "\<dots> = c # rev (dropWhile isspace (rev t))" using c by (simp add: dropWhile_snoc_keep)
  finally show ?thesis using c by simp
qed

lemma strip_idem: "strip (strip s) = strip s"
proof -
  have "strip (strip s) = rev (dropWhile isspace (rev (strip s)))"
    by (simp add: strip_def [of "strip s"] lstrip_strip)
  also have "\<dots> = strip s" by (simp add: strip_def)
  finally show ?thesis .
qed

lemma cell_fun:
  "cell str_other row =
     (\<lambda>col. case row col of None \<Rightarrow> ''N/A'' | Some v \<Rightarrow> py_str str_other v)"
  by (rule ext) (simp add: cell_def)

lemma sentinel_not_sql: "\<not> startswith_any (upper (strip ''N/A'')) sql_verbs"
  by (simp add: startswith_any_def startswith_def sql_verbs_def upper_def upper_char_def
      strip_def isspace_def)

lemma verb_not_sentinel: "startswith_any (upper s) sql_verbs \<Longrightarrow> s \<noteq> ''N/A''"
  by (auto simp add: startswith_any_def startswith_def sql_verbs_def upper_def upper_char_def)

lemma not_space_E: "\<not> isspace (CHR ''E'')"
  by (simp add: isspace_def)

lemma error_text_not_sql: "\<not> startswith_any (upper (strip (CHR ''E'' # rest))) sql_verbs"
  by (simp add: strip_Cons_nonspace not_space_E startswith_any_def startswith_def sql_verbs_def
      upper_def upper_char_def)

lemma generate_sentinel:
  "llm (sql_prompt question) system_prompt = Inr ''N/A''
   \<Longrightarrow> generate_sql_query llm question = ''N/A''"
  using sentinel_not_sql by (simp add: generate_sql_query_def)

section \<open>Facts about the store\<close>

lemma get_db_connection_ok:
  "connect drv s = (Inr u, s0) \<Longrightarrow> get_db_connection drv s = (Inr True, s0)"
  by (simp add: get_db_connection_def)

lemma get_db_connection_failed:
  "connect drv s = (Inl (Sqlite3Error m), s0) \<Longrightarrow> get_db_connection drv s = (Inr False, s0)"
  by (simp add: get_db_connection_def)

lemma get_db_connection_no_sqlite_error:
  "fst (get_db_connection drv s) \<noteq> Inl (Sqlite3Error m)"
  by (simp add: get_db_connection_def split: prod.splits sum.splits py_exn.splits)

lemma execute_query_no_sqlite_error:
  "fst (execute_query drv sql_query s) \<noteq> Inl (Sqlite3Error m)"
  using get_db_connection_no_sqlite_error [of drv s m]
  by (auto simp add: execute_query_def split: prod.splits sum.splits py_exn.splits bool.splits)




lemma execute_query_sqlite_errors:
  "(connect drv s = (Inl (Sqlite3Error m), s0)
     \<longrightarrow> execute_query drv sql_query s = (Inr (Failure ''Database connection failed.''), s0))
   \<and> (connect drv s = (Inr (), s0)
       \<and> cursor_execute drv sql_query s0 = (Inl (Sqlite3Error m), s1)
     \<longrightarrow> execute_query drv sql_query s = (Inr (Failure m), conn_close drv s1))
   \<and> (connect drv s = (Inr (), s0)
       \<and> cursor_execute drv sql_query s0 = (Inr (), s1)
       \<and> startswith (upper (strip sql_query)) ''SELECT''
       \<and> cursor_description drv s1 = Some columns
       \<and> cursor_fetchall drv s1 = (Inl (Sqlite3Error m), s2)
     \<longrightarrow> execute_query drv sql_query s = (Inr (Failure m), conn_close drv s2))
   \<and> (connect drv s = (Inr (), s0)
       \<and> cursor_execute drv sql_query s0 = (Inr (), s1)
       \<and> \<not> startswith (upper (strip sql_query)) ''SELECT''
       \<and> conn_commit drv s1 = (Inl (Sqlite3Error m), s2)
     \<longrightarrow> execute_query drv sql_query s = (Inr (Failure m), conn_close drv s2))"
  by (simp add: execute_query_def run_query_def get_db_connection_ok get_db_connection_failed)

section \<open>The formatter\<close>

text \<open>
  Claim C7. For every \<open>Failure\<close> result with message \<open>err\<close> and every question, the
  formatter returns exactly "I encountered an error while fetching data: " followed by
  \<open>err\<close>, and for every \<open>StatusMessage\<close> result it returns its text verbatim. When the
  driver raises an \<^verbatim>\<open>sqlite3.Error\<close> with the text \<open>m\<close> on a statement, the formatter's
  output for what \<^verbatim>\<open>execute_query\<close> returns is that sentence with exactly \<open>m\<close>.
\<close>

theorem format_failure_and_status:
  "format_response str_other (Failure err) question =
     ''I encountered an error while fetching data: '' @ err
   \<and> format_response str_other (StatusMessage msg) question = msg
   \<and> (connect drv s = (Inr (), s0)
       \<and> cursor_execute drv sql_query s0 = (Inl (Sqlite3Error m), s1)
     \<longrightarrow> (\<exists>query_result s'.
           execute_query drv sql_query s = (Inr query_result, s')
           \<and> format_response str_other query_result question =
               ''I encountered an error while fetching data: '' @ m))"
  by (simp add: format_response_def execute_query_def run_query_def get_db_connection_ok)

theorem format_failure_and_status_witness:
  "format_response (\<lambda>u::unit. []) (Failure ''no such table: sales'') ''foo'' =
     ''I encountered an error while fetching data: no such table: sales''
   \<and> format_response (\<lambda>u::unit. []) (StatusMessage ''Query executed successfully.'') ''foo'' =
     ''Query executed successfully.''
   \<and> (\<exists>query_result s'.
         execute_query (recording_driver (Inr ()) demo_db) ''SELECT * FROM sales'' [] =
           (Inr query_result, s')
         \<and> format_response (\<lambda>u::unit. []) query_result ''foo'' =
             ''I encountered an error while fetching data: no such table: sales'')"
  using format_failure_and_status [of "\<lambda>u::unit. []" "''no such table: sales''" "''foo''"
      "''Query executed successfully.''" "recording_driver (Inr ()) demo_db" "[]" "[Connect]"
      "''SELECT * FROM sales''" "''no such table: sales''"
      "[Connect, Execute ''SELECT * FROM sales'']"]
  by (simp add: recording_driver_def demo_db_def)

text \<open>
  Claim C8. For every \<open>Rows\<close> result whose rows are empty and every question, the
  formatter returns exactly "I couldn't find any results for your question: '\<open>question\<close>'.";
  for the columns \<open>x\<close>, no rows and the question \<open>foo\<close> it returns
  "I couldn't find any results for your question: 'foo'.".
\<close>

theorem format_no_rows:
  "format_response str_other (Rows columns []) question =
     ''I couldn't find any results for your question: '' @ [CHR 0x27] @ question
       @ [CHR 0x27] @ ''.''
   \<and> format_response str_other (Rows [''x''] []) ''foo'' =
     ''I couldn't find any results for your question: 'foo'.''"
  by (simp add: format_response_def)

theorem format_no_rows_witness:
  "format_response (\<lambda>u::unit. []) (Rows [''item_id'', ''message''] []) ''bar'' =
     ''I couldn't find any results for your question: 'bar'.''"
  using format_no_rows [of "\<lambda>u::unit. []" "[''item_id'', ''message'']" "''bar''"]
  by simp

text \<open>
  Claim C1, as the specification states it: for a non-empty \<open>Rows\<close> result the output is
  the header line, the line of dashes and the lines of the rows, and nothing else; for
  the columns \<open>a\<close> and \<open>b\<close> and the one row \<open>{a: 1, b: 2}\<close> it is the three lines
  "a | b", "---", "1 | 2". The code returns something else there: the output starts with
  "Here are the results for '\<open>question\<close>':" and an empty line, and the line of dashes
  is as long as the header "a | b", five dashes.
\<close>

theorem format_rows_counterexample:
  "format_response (\<lambda>u::unit. [])
     (Rows [''a'', ''b''] [[''a'' \<mapsto> PyInt 1, ''b'' \<mapsto> PyInt 2]]) ''foo''
   \<noteq> ''a | b\<newline>---\<newline>1 | 2''"
  by (simp add: format_response_def cell_def str_int_def str_nat.simps)

text \<open>
  Claim C1, amended. For every non-empty \<open>Rows\<close> result, the output is these lines,
  joined by single line feeds: the line "Here are the results for '\<open>question\<close>':", an
  empty line, the header line of the column names joined by " | ", a line of as many
  dashes as the header line has characters, then one line per row with each column
  rendered as its string form (a missing key as the literal N/A) joined by " | ". For the
  columns \<open>a\<close> and \<open>b\<close> and the one row \<open>{a: 1, b: 2}\<close> these are the five lines
  "Here are the results for '\<open>question\<close>':", "", "a | b", "-----", "1 | 2".
\<close>

theorem format_rows:
  "(rows \<noteq> [] \<longrightarrow>
    format_response str_other (Rows columns rows) question =
      join ''\<newline>''
        ([''Here are the results for '' @ [CHR 0x27] @ question @ [CHR 0x27] @ '':'',
          [],
          join '' | '' columns,
          replicate (length (join '' | '' columns)) (CHR ''-'')]
         @ map (\<lambda>row. join '' | ''
                  (map (\<lambda>col. case row col of None \<Rightarrow> ''N/A'' | Some v \<Rightarrow> py_str str_other v)
                     columns))
             rows))
   \<and> format_response str_other
       (Rows [''a'', ''b''] [[''a'' \<mapsto> PyInt 1, ''b'' \<mapsto> PyInt 2]]) question =
     ''Here are the results for '' @ [CHR 0x27] @ question @ [CHR 0x27]
       @ '':\<newline>\<newline>a | b\<newline>-----\<newline>1 | 2''"
  by (simp add: format_response_def Let_def cell_fun str_int_def str_nat.simps)

theorem format_rows_witness:
  "[[''a'' \<mapsto> PyInt 1, ''b'' \<mapsto> PyInt 2], [''a'' \<mapsto> PyStr ''x'']] \<noteq> []
   \<and> format_response (\<lambda>u::unit. [])
       (Rows [''a'', ''b''] [[''a'' \<mapsto> PyInt 1, ''b'' \<mapsto> PyInt 2], [''a'' \<mapsto> PyStr ''x'']]) ''foo''
     = ''Here are the results for 'foo':\<newline>\<newline>a | b\<newline>-----\<newline>1 | 2\<newline>x | N/A''"
  using format_rows [of "[[''a'' \<mapsto> PyInt 1, ''b'' \<mapsto> PyInt 2], [''a'' \<mapsto> PyStr ''x'']]"
      "\<lambda>u::unit. []" "[''a'', ''b'']" "''foo''"]
  by (simp add: str_int_def str_nat.simps)

section \<open>The synthesizer\<close>

text \<open>
  Claim C2. For every text response of the gateway that does not, once stripped, start
  with SELECT, INSERT, UPDATE or DELETE in any case of the letters, the synthesizer
  returns the sentinel "N/A"; so it does for the literal response N/A, for a gateway that
  raises (no error is passed on to the caller: the result is a string on every path), and
  for the error text that \<^verbatim>\<open>get_llm_response\<close> returns when the remote call failed. The
  sentinel is not the outcome of a response that has the shape of SQL: that outcome is
  the stripped response, which is not "N/A".
\<close>

theorem synthesizer_no_query:
  "(llm (sql_prompt question) system_prompt = Inr response
      \<and> \<not> startswith_any (upper (strip response)) sql_verbs
     \<longrightarrow> generate_sql_query llm question = ''N/A'')
   \<and> (llm (sql_prompt question) system_prompt = Inl e
     \<longrightarrow> generate_sql_query llm question = ''N/A'')
   \<and> generate_sql_query (\<lambda>prompt sys. Inr ''N/A'') question = ''N/A''
   \<and> generate_sql_query (gateway (\<lambda>turns. Inl e)) question = ''N/A''
   \<and> (llm (sql_prompt question) system_prompt = Inr response
      \<and> startswith_any (upper (strip response)) sql_verbs
     \<longrightarrow> generate_sql_query llm question = strip response
         \<and> generate_sql_query llm question \<noteq> ''N/A'')"
  using verb_not_sentinel [of "strip response"]
  by (simp add: generate_sql_query_def gateway_def get_llm_response_def sentinel_not_sql
      error_text_not_sql)

theorem synthesizer_no_query_witness:
  "generate_sql_query (\<lambda>prompt sys. Inr ''  I cannot answer that. '') ''weather?'' = ''N/A''
   \<and> generate_sql_query (\<lambda>prompt sys. Inl (OtherException ''timed out'')) ''weather?'' = ''N/A''
   \<and> generate_sql_query (\<lambda>prompt sys. Inr (CHR 0xA0 # ''Select 1'' @ [CHR 0x85])) ''one?''
       = ''Select 1''"
proof -
  have shape: "\<not> startswith_any (upper (strip ''  I cannot answer that. '')) sql_verbs"
    by (simp add: startswith_any_def startswith_def sql_verbs_def upper_def upper_char_def
        strip_def isspace_def)
  have stripped: "strip (CHR 0xA0 # ''Select 1'' @ [CHR 0x85]) = ''Select 1''"
    by (simp add: strip_def isspace_def)
  have sql: "startswith_any (upper ''Select 1'') sql_verbs"
    by (simp add: startswith_any_def startswith_def sql_verbs_def upper_def upper_char_def)
  show ?thesis
    using shape sql stripped
      synthesizer_no_query [of "\<lambda>prompt sys. Inr ''  I cannot answer that. ''" "''weather?''"
        "''  I cannot answer that. ''" "OtherException ''timed out''"]
      synthesizer_no_query [of "\<lambda>prompt sys. Inl (OtherException ''timed out'')" "''weather?''"
        "[]" "OtherException ''timed out''"]
      synthesizer_no_query [of "\<lambda>prompt sys. Inr (CHR 0xA0 # ''Select 1'' @ [CHR 0x85])"
        "''one?''" "CHR 0xA0 # ''Select 1'' @ [CHR 0x85]" "OtherException ''timed out''"]
    by simp
qed

text \<open>
  Claim C10. For every gateway, the value the synthesizer returns is the literal "N/A" or
  a stripped string that starts with SELECT, INSERT, UPDATE or DELETE in any case of the
  letters. Such a string is never "N/A" itself, so the result is "N/A" exactly when the
  gateway raised or its response did not have that shape, and it differs from "N/A"
  exactly when it is the stripped response of that shape: the orchestrator's test
  \<^verbatim>\<open>sql_query == "N/A"\<close> tells the two outcomes apart.
\<close>

theorem synthesizer_result_shape:
  "(generate_sql_query llm question = ''N/A''
      \<or> (strip (generate_sql_query llm question) = generate_sql_query llm question
          \<and> startswith_any (upper (generate_sql_query llm question)) sql_verbs))
   \<and> (generate_sql_query llm question = ''N/A'' \<longleftrightarrow>
        (case llm (sql_prompt question) system_prompt of
           Inl e \<Rightarrow> True
         | Inr response \<Rightarrow> \<not> startswith_any (upper (strip response)) sql_verbs))
   \<and> (generate_sql_query llm question \<noteq> ''N/A'' \<longleftrightarrow>
        (\<exists>response. llm (sql_prompt question) system_prompt = Inr response
           \<and> startswith_any (upper (strip response)) sql_verbs
           \<and> generate_sql_query llm question = strip response))"
  by (auto simp add: generate_sql_query_def strip_idem split: sum.splits dest: verb_not_sentinel)

theorem synthesizer_result_shape_witness:
  "generate_sql_query (\<lambda>prompt sys. Inr (CHR 0xA0 # '' select 1 '' @ [CHR 0x85])) ''one?''
     = ''select 1''
   \<and> generate_sql_query (\<lambda>prompt sys. Inr (CHR 0xA0 # '' select 1 '' @ [CHR 0x85])) ''one?''
     \<noteq> ''N/A''
   \<and> generate_sql_query (\<lambda>prompt sys. Inr ''N/A'') ''weather?'' = ''N/A''"
proof -
  have stripped: "strip (CHR 0xA0 # '' select 1 '' @ [CHR 0x85]) = ''select 1''"
    by (simp add: strip_def isspace_def)
  have shape: "startswith_any (upper ''select 1'') sql_verbs"
    by (simp add: startswith_any_def startswith_def sql_verbs_def upper_def upper_char_def)
  show ?thesis
    using stripped shape sentinel_not_sql
      synthesizer_result_shape [of "\<lambda>prompt sys. Inr (CHR 0xA0 # '' select 1 '' @ [CHR 0x85])"
        "''one?''"]
      synthesizer_result_shape [of "\<lambda>prompt sys. Inr ''N/A''" "''weather?''"]
    by auto
qed

section \<open>The store\<close>





section \<open>The orchestrator\<close>

text \<open>
  Claim C5. When the gateway returns the literal text N/A, and whenever the synthesizer
  returns its sentinel, \<^verbatim>\<open>process_question\<close> returns the fixed apology and the state of the
  world is the one it started in, whatever the driver: \<^verbatim>\<open>execute_query\<close> is not called.
  Otherwise it runs \<^verbatim>\<open>execute_query\<close> on the synthesized SQL and returns the formatter's
  output for the result and the question (and an exception that leaves \<^verbatim>\<open>execute_query\<close>
  leaves \<^verbatim>\<open>process_question\<close>).
\<close>

theorem answer_apology_or_pipeline:
  "(llm (sql_prompt question) system_prompt = Inr ''N/A''
     \<longrightarrow> process_question drv llm str_other question s = (Inr apology, s))
   \<and> (generate_sql_query llm question = ''N/A''
     \<longrightarrow> process_question drv llm str_other question s = (Inr apology, s))
   \<and> (generate_sql_query llm question \<noteq> ''N/A''
       \<and> execute_query drv (generate_sql_query llm question) s = (Inr query_result, s')
     \<longrightarrow> process_question drv llm str_other question s =
           (Inr (format_response str_other query_result question), s'))
   \<and> (generate_sql_query llm question \<noteq> ''N/A''
       \<and> execute_query drv (generate_sql_query llm question) s = (Inl e, s')
     \<longrightarrow> process_question drv llm str_other question s = (Inl e, s'))"
  by (simp add: process_question_def generate_sentinel)

theorem answer_apology_or_pipeline_witness:
  "process_question (recording_driver (Inr ()) demo_db) (\<lambda>prompt sys. Inr ''N/A'')
     (\<lambda>u::unit. []) ''weather?'' [] =
     (Inr ''I'm sorry, I couldn't generate a valid SQL query for that question based on the available data.'',
      [])
   \<and> process_question (recording_driver (Inr ()) demo_db)
       (\<lambda>prompt sys. Inr '' select a, b from t '') (\<lambda>u::unit. []) ''rows?'' [] =
     (Inr ''Here are the results for 'rows?':\<newline>\<newline>a | b\<newline>-----\<newline>1 | 2'',
      [Connect, Execute ''select a, b from t'', Fetchall, Close])"
proof -
  let ?drv = "recording_driver (Inr ()) demo_db :: (driver_call list, unit) sqlite3"
  let ?llm = "\<lambda>prompt sys :: string. Inr '' select a, b from t '' :: py_exn + string"
  let ?rows = "Rows [''a'', ''b''] (map dict [[(''a'', PyInt 1), (''b'', PyInt 2 :: unit py_value)]])"
  let ?log = "[Connect, Execute ''select a, b from t'', Fetchall, Close]"
  have sql: "generate_sql_query ?llm ''rows?'' = ''select a, b from t''"
    by (simp add: generate_sql_query_def startswith_any_def startswith_def sql_verbs_def
        upper_def upper_char_def strip_def isspace_def)
  have run: "execute_query ?drv ''select a, b from t'' [] = (Inr ?rows, ?log)"
    by (simp add: execute_query_def run_query_def get_db_connection_def recording_driver_def
        demo_db_def result_set_def startswith_def upper_def upper_char_def strip_def
        isspace_def)
  have fmt: "format_response (\<lambda>u::unit. []) ?rows ''rows?'' =
      ''Here are the results for 'rows?':\<newline>\<newline>a | b\<newline>-----\<newline>1 | 2''"
    by (simp add: format_response_def cell_def dict_def row_getitem_def
        equal_ignore_case_def is_ascii_def lower_char_def str_int_def str_nat.simps)
  show ?thesis
    using sql run fmt
      answer_apology_or_pipeline [of "\<lambda>prompt sys. Inr ''N/A''" "''weather?''" ?drv
        "\<lambda>u::unit. []" "[]"]
      answer_apology_or_pipeline [of ?llm "''rows?''" ?drv "\<lambda>u::unit. []" "[]" ?rows ?log]
    by (simp add: apology_def)
qed

text \<open>
  Claim C6. For a question whose synthesis succeeds and whose query \<^verbatim>\<open>execute_query\<close>
  answers, \<^verbatim>\<open>stream_process_question\<close> yields exactly five chunks, in this order: the
  thinking notice, the notice with the synthesized SQL, the fetching notice, the formatted
  answer and the completion notice. For a question whose synthesis fails it yields the
  thinking notice, then the apology, and stops.
\<close>

theorem staged_chunks:
  "(generate_sql_query llm question = ''N/A''
     \<longrightarrow> stream_process_question drv llm str_other question s =
           (([''Thinking...\<newline>'', apology @ ''\<newline>''], None), s))
   \<and> (generate_sql_query llm question \<noteq> ''N/A''
       \<and> execute_query drv (generate_sql_query llm question) s = (Inr query_result, s')
     \<longrightarrow> stream_process_question drv llm str_other question s =
           (([''Thinking...\<newline>'',
              ''Generated SQL query: '' @ [CHR 0x60] @ generate_sql_query llm question
                @ [CHR 0x60] @ ''\<newline>'',
              ''Fetching data...\<newline>'',
              format_response str_other query_result question @ ''\<newline>'',
              ''Process complete.''], None), s'))"
  by (simp add: stream_process_question_def)

theorem staged_chunks_witness:
  "stream_process_question (recording_driver (Inr ()) demo_db)
     (\<lambda>prompt sys. Inr ''The weather is fine.'') (\<lambda>u::unit. []) ''weather?'' [] =
     (([''Thinking...\<newline>'',
        ''I'm sorry, I couldn't generate a valid SQL query for that question based on the available data.\<newline>''],
       None), [])
   \<and> stream_process_question (recording_driver (Inr ()) demo_db)
       (\<lambda>prompt sys. Inr ''DELETE FROM t'') (\<lambda>u::unit. []) ''empty it'' [] =
     (([''Thinking...\<newline>'',
        ''Generated SQL query: '' @ [CHR 0x60] @ ''DELETE FROM t'' @ [CHR 0x60] @ ''\<newline>'',
        ''Fetching data...\<newline>'',
        ''Query executed successfully.\<newline>'',
        ''Process complete.''],
       None), [Connect, Execute ''DELETE FROM t'', Commit, Close])"
proof -
  let ?drv = "recording_driver (Inr ()) demo_db :: (driver_call list, unit) sqlite3"
  let ?no = "\<lambda>prompt sys :: string. Inr ''The weather is fine.'' :: py_exn + string"
  let ?llm = "\<lambda>prompt sys :: string. Inr ''DELETE FROM t'' :: py_exn + string"
  let ?log = "[Connect, Execute ''DELETE FROM t'', Commit, Close]"
  have rejected: "generate_sql_query ?no ''weather?'' = ''N/A''"
    by (simp add: generate_sql_query_def startswith_any_def startswith_def sql_verbs_def
        upper_def upper_char_def strip_def isspace_def)
  have sql: "generate_sql_query ?llm ''empty it'' = ''DELETE FROM t''"
    by (simp add: generate_sql_query_def startswith_any_def startswith_def sql_verbs_def
        upper_def upper_char_def strip_def isspace_def)
  have run: "execute_query ?drv ''DELETE FROM t'' [] =
      (Inr (StatusMessage ''Query executed successfully.''), ?log)"
    by (simp add: execute_query_def run_query_def get_db_connection_def recording_driver_def
        demo_db_def startswith_def upper_def upper_char_def strip_def isspace_def)
  show ?thesis
    using rejected sql run
      staged_chunks [of ?no "''weather?''" ?drv "\<lambda>u::unit. []" "[]"]
      staged_chunks [of ?llm "''empty it''" ?drv "\<lambda>u::unit. []" "[]"
        "StatusMessage ''Query executed successfully.''" ?log]
    by (simp add: apology_def format_response_def)
qed

end
